theory Spec2Isabelle
  imports Main "HOL-Library.AList" "HOL-Library.Sublist"
begin

section \<open>JavaScript values, objects and the store\<close>

text \<open>
  The module \<^verbatim>\<open>lib/utils/rule-loader.js\<close> reads properties of objects handed in by its
  callers and writes into two objects: the module-level registry \<^verbatim>\<open>ruleDefs\<close> (in
  \<^verbatim>\<open>load\<close>) and a new object \<^verbatim>\<open>config\<close> (in \<^verbatim>\<open>resolvePluginConfig\<close>). Objects are
  therefore kept in an explicit store and values refer to them by address.

  An object in the store is the list of its own enumerable properties, in the order in
  which \<^verbatim>\<open>Object.keys\<close> lists them. What a member access finds beyond these, that is own
  members that are not enumerable and members inherited along the prototype chain
  (\<^verbatim>\<open>constructor\<close>, \<^verbatim>\<open>toString\<close>, \<^verbatim>\<open>__proto__\<close> and so on), is given by the host as the
  parameter \<open>inherited\<close>: from a value and a key to the member found, \<^verbatim>\<open>undefined\<close> when
  there is none. It does not depend on the store. Prototypes are set up by the host and
  by the plugin packages; the module assigns only to \<^verbatim>\<open>ruleDefs\<close>, under keys that contain
  \<^verbatim>\<open>/\<close> while every key it reads in \<^verbatim>\<open>load\<close> contains none, and to the object that
  \<^verbatim>\<open>resolvePluginConfig\<close> creates, which nothing else refers to. Numbers are kept only as
  integers, since the module computes none.
\<close>

type_synonym addr = nat

datatype jsval = Undefined | Null | Bool bool | Num int | Str string | Ref addr

type_synonym props = "(string \<times> jsval) list"

type_synonym inherit = "jsval \<Rightarrow> string \<Rightarrow> jsval"

record heap =
  objs :: "addr \<Rightarrow> props"
  lim :: addr

text \<open>
  What the module throws is either \<^verbatim>\<open>new Error(message)\<close> or, when a property of
  \<^verbatim>\<open>undefined\<close> or \<^verbatim>\<open>null\<close> is read, the engine's \<^verbatim>\<open>TypeError\<close> (whose message depends on
  the engine and is left out). The module has no error classes of its own: a
  configuration error, a plugin load error and a rule load error are all an \<^verbatim>\<open>Error\<close>,
  told apart by the message.
\<close>

datatype error = Error string | TypeError

text \<open>
  An object literal takes the next free address; the addresses below \<open>lim\<close> are the
  ones in use.
\<close>

definition new_object :: "props \<Rightarrow> heap \<Rightarrow> addr \<times> heap" where
  "new_object ps h = (lim h, h\<lparr>objs := (objs h)(lim h := ps), lim := Suc (lim h)\<rparr>)"

text \<open>Sequencing of two steps of which the first may throw.\<close>

definition bind_err :: "error + 'a \<Rightarrow> ('a \<Rightarrow> error + 'b) \<Rightarrow> error + 'b" where
  "bind_err r f = (case r of Inl e \<Rightarrow> Inl e | Inr x \<Rightarrow> f x)"

fun show_nat :: "nat \<Rightarrow> string" where
  "show_nat n =
     (if n < 10 then [char_of (48 + n)]
      else show_nat (n div 10) @ [char_of (48 + n mod 10)])"

declare show_nat.simps [simp del]

text \<open>
  \<^verbatim>\<open>v[k]\<close> for a property key \<open>k\<close>: reading from \<^verbatim>\<open>undefined\<close> or \<^verbatim>\<open>null\<close> throws; an
  own property wins (a string has its length and its characters); otherwise the read
  gives what the value inherits.
\<close>

fun get_prop :: "inherit \<Rightarrow> heap \<Rightarrow> jsval \<Rightarrow> string \<Rightarrow> error + jsval" where
  "get_prop inherited h Undefined k = Inl TypeError"
| "get_prop inherited h Null k = Inl TypeError"
| "get_prop inherited h (Ref a) k =
     Inr (case map_of (objs h a) k of None \<Rightarrow> inherited (Ref a) k | Some v \<Rightarrow> v)"
| "get_prop inherited h (Str s) k =
     Inr (if k = ''length'' then Num (int (length s))
          else case find (\<lambda>i. show_nat i = k) [0..<length s] of
                 None \<Rightarrow> inherited (Str s) k
               | Some i \<Rightarrow> Str [s ! i])"
| "get_prop inherited h (Bool b) k = Inr (inherited (Bool b) k)"
| "get_prop inherited h (Num n) k = Inr (inherited (Num n) k)"

text \<open>\<^verbatim>\<open>Object.keys(v)\<close>.\<close>

fun object_keys :: "heap \<Rightarrow> jsval \<Rightarrow> error + string list" where
  "object_keys h Undefined = Inl TypeError"
| "object_keys h Null = Inl TypeError"
| "object_keys h (Ref a) = Inr (map fst (objs h a))"
| "object_keys h (Str s) = Inr (map show_nat [0..<length s])"
| "object_keys h (Bool b) = Inr []"
| "object_keys h (Num n) = Inr []"

text \<open>
  \<^verbatim>\<open>o[k] = v\<close> on the object at address \<open>a\<close>, for the two objects the module assigns to:
  an existing property keeps its place, a new one goes last.
\<close>

definition set_prop :: "heap \<Rightarrow> addr \<Rightarrow> string \<Rightarrow> jsval \<Rightarrow> heap" where
  "set_prop h a k v = h\<lparr>objs := (objs h)(a := AList.update k v (objs h a))\<rparr>"

section \<open>Strings\<close>

text \<open>\<^verbatim>\<open>s.split(c)\<close> for a one-character separator, and \<^verbatim>\<open>parts[i]\<close> on its result.\<close>

fun str_split :: "char \<Rightarrow> string \<Rightarrow> string list" where
  "str_split c [] = [[]]"
| "str_split c (x # xs) =
     (if x = c then [] # str_split c xs
      else (case str_split c xs of
              [] \<Rightarrow> [[x]]
            | p # ps \<Rightarrow> (x # p) # ps))"

definition js_index :: "string list \<Rightarrow> nat \<Rightarrow> string option" where
  "js_index parts i = (if i < length parts then Some (parts ! i) else None)"

text \<open>
  A part used as a string (\<^verbatim>\<open>prefix + parts[0]\<close>, \<^verbatim>\<open>rules[parts[1]]\<close>): a missing part
  is \<^verbatim>\<open>undefined\<close>, which converts to the string \<^verbatim>\<open>"undefined"\<close>.
\<close>

definition to_str :: "string option \<Rightarrow> string" where
  "to_str p = (case p of None \<Rightarrow> ''undefined'' | Some s \<Rightarrow> s)"

definition dquote :: string where
  "dquote = [CHR 0x22]"

text \<open>
  A value as the right operand of \<^verbatim>\<open>string + value\<close>. How a number is printed and what
  an object's own conversion methods return (or throw) is the host's, the parameter
  \<open>host_to_string\<close>.
\<close>

definition js_to_string :: "(heap \<Rightarrow> jsval \<Rightarrow> error + string) \<Rightarrow> heap \<Rightarrow> jsval \<Rightarrow> error + string" where
  "js_to_string host_to_string h v =
     (case v of
        Undefined \<Rightarrow> Inr ''undefined''
      | Null \<Rightarrow> Inr ''null''
      | Bool b \<Rightarrow> Inr (if b then ''true'' else ''false'')
      | Str s \<Rightarrow> Inr s
      | Num n \<Rightarrow> host_to_string h v
      | Ref a \<Rightarrow> host_to_string h v)"

section \<open>The module\<close>

subsection \<open>Constants\<close>

definition SOLIUM_RULESET_ALL :: string where
  "SOLIUM_RULESET_ALL = ''solium:all''"

definition SOLIUM_RULESET_RECOMMENDED :: string where
  "SOLIUM_RULESET_RECOMMENDED = ''solium:all''"

definition SOLIUM_CORE_RULES_DIRNAME :: string where
  "SOLIUM_CORE_RULES_DIRNAME = ''rules''"

definition SOLIUM_PLUGIN_PREFIX :: string where
  "SOLIUM_PLUGIN_PREFIX = ''solium-plugin-''"

definition SOLIUM_SHARABLE_CONFIG_PREFIX :: string where
  "SOLIUM_SHARABLE_CONFIG_PREFIX = ''solium-config-''"

definition SOLIUM_CORE_RULES_DIRPATH :: string where
  "SOLIUM_CORE_RULES_DIRPATH = ''../'' @ SOLIUM_CORE_RULES_DIRNAME"

subsection \<open>load\<close>

text \<open>
  The plugin branch of the callback, after \<^verbatim>\<open>pluginName\<close> and \<^verbatim>\<open>ruleName\<close> are computed.
  Only the read \<^verbatim>\<open>plugins[pluginName]\<close> is inside the \<^verbatim>\<open>try\<close>; the reads of
  \<^verbatim>\<open>plugin.rules[ruleName]\<close> are outside it, and the write to \<^verbatim>\<open>ruleDefs[name]\<close> is last.
\<close>

definition plugin_branch ::
  "inherit \<Rightarrow> addr \<Rightarrow> heap \<Rightarrow> string \<Rightarrow> string \<Rightarrow> string \<Rightarrow> jsval \<Rightarrow> error + heap" where
  "plugin_branch inherited ruleDefs h name pluginName ruleName plugins =
     (case get_prop inherited h plugins pluginName of
        Inl e \<Rightarrow> Inl (Error (''Unable to load Plugin '' @ dquote @ pluginName @ dquote @ ''.''))
      | Inr plugin \<Rightarrow>
          bind_err (get_prop inherited h plugin ''rules'') (\<lambda>rules.
          bind_err (get_prop inherited h rules ruleName) (\<lambda>v.
          Inr (set_prop h ruleDefs name v))))"

text \<open>
  One call of the \<^verbatim>\<open>forEach\<close> callback. In the core branch the body of the \<^verbatim>\<open>try\<close> is a
  comment, so nothing is acquired, nothing is bound and the handler with
  \<^verbatim>\<open>"Unable to read " + ruleFile\<close> cannot run; \<^verbatim>\<open>ruleFile\<close> is computed and not used.
\<close>

definition load_rule :: "inherit \<Rightarrow> addr \<Rightarrow> heap \<Rightarrow> string \<Rightarrow> jsval \<Rightarrow> error + heap" where
  "load_rule inherited ruleDefs h name plugins =
     (if CHR ''/'' \<in> set name then
        (let parts = str_split (CHR ''/'') name;
             pluginName = SOLIUM_PLUGIN_PREFIX @ to_str (js_index parts 0);
             ruleName = to_str (js_index parts 1)
         in plugin_branch inherited ruleDefs h name pluginName ruleName plugins)
      else Inr h)"

text \<open>
  \<^verbatim>\<open>listOfRules.forEach\<close>: an exception leaves the loop, and what the earlier calls wrote
  stays written.
\<close>

fun forEach_load ::
  "inherit \<Rightarrow> addr \<Rightarrow> heap \<Rightarrow> string list \<Rightarrow> jsval \<Rightarrow> (error + unit) \<times> heap" where
  "forEach_load inherited ruleDefs h [] plugins = (Inr (), h)"
| "forEach_load inherited ruleDefs h (name # names) plugins =
     (case load_rule inherited ruleDefs h name plugins of
        Inl e \<Rightarrow> (Inl e, h)
      | Inr h' \<Rightarrow> forEach_load inherited ruleDefs h' names plugins)"

text \<open>
  \<^verbatim>\<open>load(listOfRules, plugins)\<close>, with the address of the module's \<^verbatim>\<open>ruleDefs\<close> object as
  first argument. It returns that same object.
\<close>

definition load ::
  "inherit \<Rightarrow> addr \<Rightarrow> heap \<Rightarrow> string list \<Rightarrow> jsval \<Rightarrow> (error + jsval) \<times> heap" where
  "load inherited ruleDefs h listOfRules plugins =
     (case forEach_load inherited ruleDefs h listOfRules plugins of
        (Inl e, h') \<Rightarrow> (Inl e, h')
      | (Inr u, h') \<Rightarrow> (Inr (Ref ruleDefs), h'))"

subsection \<open>ruleDefs\<close>

text \<open>
  The registry is an object literal with one entry per builtin rule, each bound to what
  \<^verbatim>\<open>require('../rules/<name>')\<close> returned when the module was loaded. The rule modules are
  not part of this file: their exports are the parameter \<open>require_rule\<close>.
\<close>

definition core_rule_names :: "string list" where
  "core_rule_names =
     [''arg-overflow'', ''array-declarations'', ''blank-lines'', ''camelcase'',
      ''comma-whitespace'', ''conditionals-whitespace'', ''constructor'',
      ''deprecated-suicide'', ''double-quotes'', ''emit'', ''error-reason'',
      ''function-order'', ''function-whitespace'', ''imports-on-top'', ''indentation'',
      ''lbrace'', ''linebreak-style'', ''max-len'', ''mixedcase'', ''no-constant'',
      ''no-empty-blocks'', ''no-experimental'', ''no-trailing-whitespace'',
      ''no-unused-vars'', ''no-with'', ''operator-whitespace'', ''pragma-on-top'',
      ''quotes'', ''semicolon-whitespace'', ''uppercase'', ''value-in-payable'',
      ''variable-declarations'', ''visibility-first'', ''whitespace'']"

definition ruleDefs_literal :: "(string \<Rightarrow> jsval) \<Rightarrow> props" where
  "ruleDefs_literal require_rule =
     map (\<lambda>name. (name, require_rule (''../rules/'' @ name))) core_rule_names"

definition module_init :: "(string \<Rightarrow> jsval) \<Rightarrow> heap \<Rightarrow> addr \<times> heap" where
  "module_init require_rule h = new_object (ruleDefs_literal require_rule) h"

subsection \<open>resolvePluginConfig\<close>

definition config_key :: "string \<Rightarrow> string \<Rightarrow> string" where
  "config_key name ruleName = name @ ''/'' @ ruleName"

text \<open>The right-hand side \<^verbatim>\<open>plugin.rules[ruleName].meta.docs.type\<close>.\<close>

definition rule_type :: "inherit \<Rightarrow> heap \<Rightarrow> jsval \<Rightarrow> string \<Rightarrow> error + jsval" where
  "rule_type inherited h plugin ruleName =
     bind_err (get_prop inherited h plugin ''rules'') (\<lambda>rules.
     bind_err (get_prop inherited h rules ruleName) (\<lambda>rule.
     bind_err (get_prop inherited h rule ''meta'') (\<lambda>meta.
     bind_err (get_prop inherited h meta ''docs'') (\<lambda>docs.
     get_prop inherited h docs ''type''))))"

fun forEach_config ::
  "inherit \<Rightarrow> heap \<Rightarrow> addr \<Rightarrow> string \<Rightarrow> jsval \<Rightarrow> string list \<Rightarrow> (error + unit) \<times> heap" where
  "forEach_config inherited h config name plugin [] = (Inr (), h)"
| "forEach_config inherited h config name plugin (ruleName # keys) =
     (case rule_type inherited h plugin ruleName of
        Inl e \<Rightarrow> (Inl e, h)
      | Inr t \<Rightarrow>
          forEach_config inherited (set_prop h config (config_key name ruleName) t)
            config name plugin keys)"

definition resolvePluginConfig ::
  "inherit \<Rightarrow> heap \<Rightarrow> string \<Rightarrow> jsval \<Rightarrow> (error + jsval) \<times> heap" where
  "resolvePluginConfig inherited h name plugin =
     (let (config, h0) = new_object [] h in
      case bind_err (get_prop inherited h0 plugin ''rules'') (object_keys h0) of
        Inl e \<Rightarrow> (Inl e, h0)
      | Inr keys \<Rightarrow>
          (case forEach_config inherited h0 config name plugin keys of
             (Inl e, h') \<Rightarrow> (Inl e, h')
           | (Inr u, h') \<Rightarrow> (Inr (Ref config), h')))"

subsection \<open>resolveUpstream\<close>

text \<open>
  The host supplies three more things that are not in this file. \<^verbatim>\<open>require(path)\<close> returns the
  module's exports or throws; what it throws can be any value (\<open>Inl\<close> of it), since a
  package may throw what it likes while it loads. \<^verbatim>\<open>isAValidSharableConfig(config)\<close>
  returns its verdict and leaves a value in its \<^verbatim>\<open>errors\<close> property, the second
  component here. \<^verbatim>\<open>util.inspect\<close> renders a value as a string. Loading and validating may
  allocate, so both return the store.
\<close>

type_synonym require = "string \<Rightarrow> heap \<Rightarrow> (jsval + jsval) \<times> heap"

type_synonym validator = "jsval \<Rightarrow> heap \<Rightarrow> (bool \<times> jsval) \<times> heap"

type_synonym inspect = "heap \<Rightarrow> jsval \<Rightarrow> string"

text \<open>\<^verbatim>\<open>/^solium:[a-z_]+$/.test(s)\<close>.\<close>

definition lower_or_underscore :: "char \<Rightarrow> bool" where
  "lower_or_underscore c =
     ((97 \<le> (of_char c :: nat) \<and> (of_char c :: nat) \<le> 122) \<or> c = CHR ''_'')"

definition coreRulesetRegExp_test :: "string \<Rightarrow> bool" where
  "coreRulesetRegExp_test s =
     (take 7 s = ''solium:'' \<and> drop 7 s \<noteq> [] \<and> list_all lower_or_underscore (drop 7 s))"

definition not_core_ruleset :: "string \<Rightarrow> error" where
  "not_core_ruleset upstream = Error (dquote @ upstream @ dquote @ '' is not a core ruleset.'')"

text \<open>
  In the handler of the second \<^verbatim>\<open>try\<close> the reads \<^verbatim>\<open>e.code\<close> and \<^verbatim>\<open>e.message\<close> are reads
  of the value thrown, whatever it is: on \<^verbatim>\<open>null\<close> or \<^verbatim>\<open>undefined\<close> the first of them
  throws a \<^verbatim>\<open>TypeError\<close>, which leaves the function.
\<close>

definition resolveUpstream ::
  "inherit \<Rightarrow> require \<Rightarrow> validator \<Rightarrow> inspect \<Rightarrow> (heap \<Rightarrow> jsval \<Rightarrow> error + string)
     \<Rightarrow> heap \<Rightarrow> string \<Rightarrow> (error + jsval) \<times> heap" where
  "resolveUpstream inherited require isAValidSharableConfig inspect host_to_string h upstream =
     (if coreRulesetRegExp_test upstream then
        (case require (''../../config/rulesets/solium-''
                        @ to_str (js_index (str_split (CHR '':'') upstream) 1)) h of
           (Inl e, h') \<Rightarrow> (Inl (not_core_ruleset upstream), h')
         | (Inr m, h') \<Rightarrow>
             (case get_prop inherited h' m ''rules'' of
                Inl e \<Rightarrow> (Inl (not_core_ruleset upstream), h')
              | Inr rules \<Rightarrow> (Inr rules, h')))
      else
        (let configName = SOLIUM_SHARABLE_CONFIG_PREFIX @ upstream in
         case require configName h of
           (Inl e, h') \<Rightarrow>
             (case get_prop inherited h' e ''code'' of
                Inl err \<Rightarrow> (Inl err, h')
              | Inr code \<Rightarrow>
                  if code = Str ''MODULE_NOT_FOUND'' then
                    (Inl (Error (''The sharable config '' @ dquote @ configName @ dquote
                           @ '' is not installed. ''
                           @ ''If Solium is installed globally, install the config globally using ''
                           @ dquote @ ''npm install -g '' @ configName @ dquote
                           @ ''. Else install locally using ''
                           @ dquote @ ''npm install --save-dev '' @ configName @ dquote @ ''.'')), h')
                  else
                    (case bind_err (get_prop inherited h' e ''message'')
                            (js_to_string host_to_string h') of
                       Inl err \<Rightarrow> (Inl err, h')
                     | Inr message \<Rightarrow>
                         (Inl (Error (''The sharable config '' @ dquote @ configName @ dquote
                                @ '' could not be loaded: '' @ message)), h')))
         | (Inr config, h') \<Rightarrow>
             (case isAValidSharableConfig config h' of
                ((True, errors), h'') \<Rightarrow> (get_prop inherited h'' config ''rules'', h'')
              | ((False, errors), h'') \<Rightarrow>
                  (Inl (Error (''Invalid sharable config '' @ dquote @ configName @ dquote
                         @ ''. AJV message:'' @ [CHR 0x0A] @ inspect h'' errors)), h''))))"

section \<open>Well-formed stores\<close>

text \<open>
  In a store that JavaScript can build, the keys of an object are distinct and every
  reference held by an object in use points to an object in use.
\<close>

definition val_ok :: "heap \<Rightarrow> jsval \<Rightarrow> bool" where
  "val_ok h v = (case v of Ref b \<Rightarrow> b < lim h | _ \<Rightarrow> True)"

definition wf_heap :: "heap \<Rightarrow> bool" where
  "wf_heap h =
     (\<forall>a \<in> {..<lim h}. distinct (map fst (objs h a)) \<and> list_all (\<lambda>(k, v). val_ok h v) (objs h a))"

section \<open>The segments of a name\<close>

text \<open>
  The text before the first \<^verbatim>\<open>/\<close> of a name and the text between its first and its
  second \<^verbatim>\<open>/\<close> (up to the end when there is no second), written without \<^verbatim>\<open>split\<close>.
\<close>

definition first_segment :: "string \<Rightarrow> string" where
  "first_segment name = takeWhile (\<lambda>c. c \<noteq> CHR ''/'') name"

definition second_segment :: "string \<Rightarrow> string" where
  "second_segment name =
     takeWhile (\<lambda>c. c \<noteq> CHR ''/'') (drop 1 (dropWhile (\<lambda>c. c \<noteq> CHR ''/'') name))"

section \<open>Example stores\<close>

text \<open>
  A store with an empty registry at address 0, the rule \<^verbatim>\<open>impl\<close> (address 3), which is
  \<^verbatim>\<open>{meta: {docs: {type: "security"}}}\<close>, the plugin table
  \<^verbatim>\<open>{"solium-plugin-pluginA": {rules: {ruleB: impl}}}\<close> at address 6, the empty table \<^verbatim>\<open>{}\<close>
  at address 7, the plugin \<^verbatim>\<open>{rules: {bar: impl}}\<close> at address 9, the function \<^verbatim>\<open>Object\<close>
  at address 10 and two objects that a failing \<^verbatim>\<open>require\<close> throws, at addresses 11 and
  12. Every object inherits \<^verbatim>\<open>constructor\<close>, which is \<^verbatim>\<open>Object\<close>, and nothing else.
\<close>

definition example_heap :: heap where
  "example_heap =
     \<lparr>objs = (\<lambda>a. [])
        (1 := [(''type'', Str ''security'')],
         2 := [(''docs'', Ref 1)],
         3 := [(''meta'', Ref 2)],
         4 := [(''ruleB'', Ref 3)],
         5 := [(''rules'', Ref 4)],
         6 := [(''solium-plugin-pluginA'', Ref 5)],
         8 := [(''bar'', Ref 3)],
         9 := [(''rules'', Ref 8)],
         11 := [(''code'', Str ''MODULE_NOT_FOUND''), (''message'', Str ''Cannot find module'')],
         12 := [(''message'', Str ''boom'')]),
      lim = 13\<rparr>"

definition example_inherited :: inherit where
  "example_inherited v k =
     (case v of Ref a \<Rightarrow> (if k = ''constructor'' then Ref 10 else Undefined) | _ \<Rightarrow> Undefined)"

definition example_require_rule :: "string \<Rightarrow> jsval" where
  "example_require_rule path = (if path = ''../rules/quotes'' then Ref 3 else Ref 1)"

text \<open>
  A host for the examples: the core ruleset \<^verbatim>\<open>all\<close> and the package
  \<^verbatim>\<open>solium-config-good\<close> export the object at address 5, \<^verbatim>\<open>solium-config-bad\<close> exports an
  object without \<^verbatim>\<open>rules\<close>, \<^verbatim>\<open>solium-config-broken\<close> throws the object at address 12
  while loading, \<^verbatim>\<open>solium-config-null\<close> throws \<^verbatim>\<open>null\<close>, and nothing else is installed. The
  validator accepts the object at address 5 only.
\<close>

definition example_require :: require where
  "example_require path h =
     (if path = ''../../config/rulesets/solium-all'' \<or> path = ''solium-config-good'' then (Inr (Ref 5), h)
      else if path = ''solium-config-bad'' then (Inr (Ref 3), h)
      else if path = ''solium-config-broken'' then (Inl (Ref 12), h)
      else if path = ''solium-config-null'' then (Inl Null, h)
      else (Inl (Ref 11), h))"

definition example_validator :: validator where
  "example_validator config h =
     (if config = Ref 5 then ((True, Null), h) else ((False, Str ''should have rules''), h))"

definition example_inspect :: inspect where
  "example_inspect h v = (case v of Str s \<Rightarrow> s | _ \<Rightarrow> ''null'')"

definition example_to_string :: "heap \<Rightarrow> jsval \<Rightarrow> error + string" where
  "example_to_string h v = Inr ''[object Object]''"

section \<open>Splitting names\<close>

lemma str_split_not_Nil: "str_split c s \<noteq> []"
  by (induction s) (auto split: list.splits)

lemma str_split_none: "c \<notin> set s \<Longrightarrow> str_split c s = [s]"
  by (induction s) auto

lemma str_split_append: "c \<notin> set p \<Longrightarrow> str_split c (p @ c # q) = p # str_split c q"
  by (induction p) auto

lemma str_split_hd: "str_split c q = takeWhile (\<lambda>x. x \<noteq> c) q # tl (str_split c q)"
  by (induction q) (auto split: list.splits simp: str_split_not_Nil)

lemma first_segment_no_slash: "CHR ''/'' \<notin> set (first_segment name)"
  by (auto simp: first_segment_def dest: set_takeWhileD)

lemma second_segment_no_slash: "CHR ''/'' \<notin> set (second_segment name)"
  by (auto simp: second_segment_def dest: set_takeWhileD)

lemma first_segment_append: "CHR ''/'' \<notin> set p \<Longrightarrow> first_segment (p @ CHR ''/'' # q) = p"
  by (induction p) (auto simp: first_segment_def)

lemma second_segment_append:
  "CHR ''/'' \<notin> set p \<Longrightarrow>
     second_segment (p @ CHR ''/'' # q) = takeWhile (\<lambda>c. c \<noteq> CHR ''/'') q"
  by (induction p) (auto simp: second_segment_def)

lemma takeWhile_upto_slash:
  "CHR ''/'' \<notin> set r \<Longrightarrow> takeWhile (\<lambda>c. c \<noteq> CHR ''/'') (r @ CHR ''/'' # rest) = r"
  by (induction r) auto

lemma name_decomposition:
  assumes "CHR ''/'' \<in> set name"
  obtains q where "name = first_segment name @ CHR ''/'' # q"
proof -
  let ?P = "\<lambda>c. c \<noteq> CHR ''/''"
  from assms have "dropWhile ?P name \<noteq> []" by (simp add: dropWhile_eq_Nil_conv)
  moreover have "\<not> ?P (hd (dropWhile ?P name))" if "dropWhile ?P name \<noteq> []"
    using that by (rule hd_dropWhile)
  ultimately obtain q where "dropWhile ?P name = CHR ''/'' # q"
    by (cases "dropWhile ?P name") auto
  then have "name = first_segment name @ CHR ''/'' # q"
    unfolding first_segment_def by (metis takeWhile_dropWhile_id)
  then show thesis by (rule that)
qed

lemma split_segments:
  assumes "CHR ''/'' \<in> set name"
  shows "to_str (js_index (str_split (CHR ''/'') name) 0) = first_segment name"
    and "to_str (js_index (str_split (CHR ''/'') name) 1) = second_segment name"
proof -
  from assms obtain q where q: "name = first_segment name @ CHR ''/'' # q"
    by (rule name_decomposition)
  let ?p = "first_segment name"
  have "str_split (CHR ''/'') (?p @ CHR ''/'' # q) = ?p # str_split (CHR ''/'') q"
    by (simp add: str_split_append first_segment_no_slash)
  also have "\<dots> = ?p # takeWhile (\<lambda>c. c \<noteq> CHR ''/'') q # tl (str_split (CHR ''/'') q)"
    using str_split_hd [of "CHR ''/''" q] by simp
  also have "takeWhile (\<lambda>c. c \<noteq> CHR ''/'') q = second_segment (?p @ CHR ''/'' # q)"
    by (simp add: second_segment_append first_segment_no_slash)
  finally have "str_split (CHR ''/'') name = ?p # second_segment name # tl (str_split (CHR ''/'') q)"
    using q by simp
  then show "to_str (js_index (str_split (CHR ''/'') name) 0) = first_segment name"
    and "to_str (js_index (str_split (CHR ''/'') name) 1) = second_segment name"
    by (simp_all add: js_index_def to_str_def)
qed

section \<open>Properties of load\<close>

lemma load_rule_core:
  "CHR ''/'' \<notin> set name \<Longrightarrow> load_rule inherited rd h name plugins = Inr h"
  by (simp add: load_rule_def)

lemma load_rule_qualified:
  assumes "CHR ''/'' \<in> set name"
  shows "load_rule inherited rd h name plugins =
           plugin_branch inherited rd h name (SOLIUM_PLUGIN_PREFIX @ first_segment name)
             (second_segment name) plugins"
  using assms split_segments [OF assms] by (simp add: load_rule_def Let_def)

lemma map_of_set_prop: "map_of (objs (set_prop h a k v) a) = (map_of (objs h a))(k \<mapsto> v)"
  by (simp add: set_prop_def update_conv')

lemma lim_set_prop: "lim (set_prop h a k v) = lim h"
  by (simp add: set_prop_def)

lemma objs_set_prop_same: "objs (set_prop h a k v) a = AList.update k v (objs h a)"
  by (simp add: set_prop_def)

lemma objs_set_prop_other: "b \<noteq> a \<Longrightarrow> objs (set_prop h a k v) b = objs h b"
  by (simp add: set_prop_def)

lemma get_prop_set_prop_other_key:
  "key \<noteq> k \<Longrightarrow> get_prop inherited (set_prop h a k v) x key = get_prop inherited h x key"
  by (cases x) (simp_all add: set_prop_def update_conv')

lemma plugin_branch_Inr:
  "plugin_branch inherited rd h name pn rn plugins = Inr h' \<Longrightarrow> \<exists>v. h' = set_prop h rd name v"
  by (auto simp: plugin_branch_def bind_err_def split: sum.splits)

lemma load_rule_Inr:
  "load_rule inherited rd h name plugins = Inr h' \<Longrightarrow> h' = h \<or> (\<exists>v. h' = set_prop h rd name v)"
  by (auto simp: load_rule_def Let_def dest: plugin_branch_Inr split: if_splits)

lemma forEach_load_other_key:
  "k \<notin> set names \<Longrightarrow>
     map_of (objs (snd (forEach_load inherited rd h names plugins)) rd) k = map_of (objs h rd) k"
proof (induction names arbitrary: h)
  case Nil
  then show ?case by simp
next
  case (Cons n ns)
  show ?case
  proof (cases "load_rule inherited rd h n plugins")
    case (Inl e)
    then show ?thesis by simp
  next
    case (Inr h')
    from Cons.prems have "k \<noteq> n" "k \<notin> set ns" by auto
    from load_rule_Inr [OF Inr] \<open>k \<noteq> n\<close>
    have "map_of (objs h' rd) k = map_of (objs h rd) k"
      by (auto simp: map_of_set_prop)
    with Cons.IH [OF \<open>k \<notin> set ns\<close>, of h'] Inr show ?thesis by simp
  qed
qed

lemma snd_load:
  "snd (load inherited rd h names plugins) = snd (forEach_load inherited rd h names plugins)"
  by (simp add: load_def split: prod.splits sum.splits)

lemma prefix_no_slash: "CHR ''/'' \<notin> set (''solium-plugin-'' @ first_segment name)"
  using first_segment_no_slash [of name] by simp

lemma map_of_foldl_update:
  "map_of (foldl (\<lambda>al n. AList.update n (f n) al) al ns) k
     = (if k \<in> set ns then Some (f k) else map_of al k)"
  by (induction ns arbitrary: al) (auto simp: update_conv')

lemma forEach_load_binds:
  assumes "\<forall>n\<in>set names. CHR ''/'' \<in> set n \<longrightarrow>
      (\<exists>plugin rules.
         get_prop inherited h plugins (''solium-plugin-'' @ first_segment n) = Inr plugin
       \<and> get_prop inherited h plugin ''rules'' = Inr rules
       \<and> get_prop inherited h rules (second_segment n) = Inr (impl n))"
    and "\<forall>x key. CHR ''/'' \<notin> set key \<longrightarrow> get_prop inherited h1 x key = get_prop inherited h x key"
  shows "fst (forEach_load inherited rd h1 names plugins) = Inr ()
       \<and> lim (snd (forEach_load inherited rd h1 names plugins)) = lim h1
       \<and> objs (snd (forEach_load inherited rd h1 names plugins)) rd
           = foldl (\<lambda>registry n. AList.update n (impl n) registry) (objs h1 rd)
               (filter (\<lambda>n. CHR ''/'' \<in> set n) names)
       \<and> (\<forall>a. a \<noteq> rd \<longrightarrow> objs (snd (forEach_load inherited rd h1 names plugins)) a = objs h1 a)"
  using assms
proof (induction names arbitrary: h1)
  case Nil
  then show ?case by simp
next
  case (Cons n ns)
  have rest: "\<forall>n\<in>set ns. CHR ''/'' \<in> set n \<longrightarrow>
      (\<exists>plugin rules.
         get_prop inherited h plugins (''solium-plugin-'' @ first_segment n) = Inr plugin
       \<and> get_prop inherited h plugin ''rules'' = Inr rules
       \<and> get_prop inherited h rules (second_segment n) = Inr (impl n))"
    using Cons.prems(1) by simp
  show ?case
  proof (cases "CHR ''/'' \<in> set n")
    case False
    then have "load_rule inherited rd h1 n plugins = Inr h1"
      by (simp add: load_rule_core)
    with Cons.IH [OF rest Cons.prems(2)] False show ?thesis by simp
  next
    case True
    with Cons.prems(1) obtain plugin rules where
      "get_prop inherited h plugins (''solium-plugin-'' @ first_segment n) = Inr plugin"
      "get_prop inherited h plugin ''rules'' = Inr rules"
      "get_prop inherited h rules (second_segment n) = Inr (impl n)"
      by auto
    with Cons.prems(2) have
      "get_prop inherited h1 plugins (''solium-plugin-'' @ first_segment n) = Inr plugin"
      "get_prop inherited h1 plugin ''rules'' = Inr rules"
      "get_prop inherited h1 rules (second_segment n) = Inr (impl n)"
      using prefix_no_slash [of n] second_segment_no_slash [of n] by simp_all
    then have step: "load_rule inherited rd h1 n plugins = Inr (set_prop h1 rd n (impl n))"
      using True
      by (simp add: load_rule_qualified plugin_branch_def bind_err_def SOLIUM_PLUGIN_PREFIX_def)
    have inv: "\<forall>x key. CHR ''/'' \<notin> set key \<longrightarrow>
        get_prop inherited (set_prop h1 rd n (impl n)) x key = get_prop inherited h x key"
    proof (intro allI impI)
      fix x key
      assume k: "CHR ''/'' \<notin> set key"
      with True have "key \<noteq> n" by auto
      then have "get_prop inherited (set_prop h1 rd n (impl n)) x key = get_prop inherited h1 x key"
        by (rule get_prop_set_prop_other_key)
      with Cons.prems(2) k show
        "get_prop inherited (set_prop h1 rd n (impl n)) x key = get_prop inherited h x key"
        by simp
    qed
    from Cons.IH [OF rest inv] step True show ?thesis
      by (simp add: lim_set_prop objs_set_prop_same objs_set_prop_other)
  qed
qed

lemma core_rule_names_no_slash: "name \<in> set core_rule_names \<Longrightarrow> CHR ''/'' \<notin> set name"
  unfolding core_rule_names_def by auto

lemma map_of_map_graph: "k \<in> set ks \<Longrightarrow> map_of (map (\<lambda>k. (k, f k)) ks) k = Some (f k)"
  by (induction ks) auto

lemma map_of_ruleDefs_literal:
  "name \<in> set core_rule_names \<Longrightarrow>
     map_of (ruleDefs_literal require_rule) name = Some (require_rule (''../rules/'' @ name))"
  unfolding ruleDefs_literal_def by (rule map_of_map_graph)

lemma load_binds:
  assumes "\<forall>n\<in>set names. CHR ''/'' \<in> set n \<longrightarrow>
      (\<exists>plugin rules.
         get_prop inherited h plugins (''solium-plugin-'' @ first_segment n) = Inr plugin
       \<and> get_prop inherited h plugin ''rules'' = Inr rules
       \<and> get_prop inherited h rules (second_segment n) = Inr (impl n))"
  shows "\<exists>h'. load inherited rd h names plugins = (Inr (Ref rd), h')
           \<and> (\<forall>n\<in>set names. CHR ''/'' \<in> set n \<longrightarrow> map_of (objs h' rd) n = Some (impl n))
           \<and> objs h' rd = foldl (\<lambda>registry n. AList.update n (impl n) registry) (objs h rd)
                             (filter (\<lambda>n. CHR ''/'' \<in> set n) names)
           \<and> (\<forall>a. a \<noteq> rd \<longrightarrow> objs h' a = objs h a)
           \<and> lim h' = lim h"
proof -
  obtain r h' where l: "forEach_load inherited rd h names plugins = (r, h')"
    by (cases "forEach_load inherited rd h names plugins")
  from forEach_load_binds [OF assms, of h rd] l
  have r: "r = Inr ()" and lim: "lim h' = lim h"
    and reg: "objs h' rd = foldl (\<lambda>registry n. AList.update n (impl n) registry) (objs h rd)
                             (filter (\<lambda>n. CHR ''/'' \<in> set n) names)"
    and others: "\<forall>a. a \<noteq> rd \<longrightarrow> objs h' a = objs h a"
    by simp_all
  have "load inherited rd h names plugins = (Inr (Ref rd), h')"
    by (simp add: load_def l r)
  moreover have "\<forall>n\<in>set names. CHR ''/'' \<in> set n \<longrightarrow> map_of (objs h' rd) n = Some (impl n)"
    by (simp add: reg map_of_foldl_update)
  ultimately show ?thesis
    using lim reg others by blast
qed

text \<open>
  C1. The claim: \<^verbatim>\<open>load(["unknown-core-rule"], {})\<close> fails with an error naming the path
  that could not be read, and binds nothing for the names after it. The code: a name
  without \<^verbatim>\<open>/\<close> is never acquired, so the call returns the registry with the store as
  it was, whatever the name and the plugin table; and the names after it are still
  processed, here the plugin rule \<^verbatim>\<open>pluginA/ruleB\<close>, which gets bound.
\<close>

theorem load_unknown_core_rule_returns:
  "load inherited ruleDefs h [''unknown-core-rule''] plugins = (Inr (Ref ruleDefs), h)
   \<and> load example_inherited 0 example_heap [''unknown-core-rule'', ''pluginA/ruleB''] (Ref 6)
       = (Inr (Ref 0), set_prop example_heap 0 ''pluginA/ruleB'' (Ref 3))"
  by (simp add: load_def load_rule_def plugin_branch_def bind_err_def js_index_def to_str_def
      SOLIUM_PLUGIN_PREFIX_def example_heap_def)

text \<open>
  C2. The claim: when the plugin package of a qualified name is missing from the plugin
  table, \<^verbatim>\<open>load\<close> fails with the error \<^verbatim>\<open>Unable to load Plugin "solium-plugin-pluginA".\<close>
  and the registry gets no entry. The code: with the empty table (address 7) the read
  \<^verbatim>\<open>plugins[pluginName]\<close> gives \<^verbatim>\<open>undefined\<close> without throwing, and the read of its
  \<^verbatim>\<open>rules\<close>, outside the \<^verbatim>\<open>try\<close>, throws a \<^verbatim>\<open>TypeError\<close>. The store is left as it was.
\<close>

theorem load_absent_plugin_throws_TypeError:
  "load example_inherited 0 example_heap [''pluginA/ruleB''] (Ref 7) = (Inl TypeError, example_heap)
   \<and> fst (load example_inherited 0 example_heap [''pluginA/ruleB''] (Ref 7))
       \<noteq> Inl (Error (''Unable to load Plugin '' @ dquote @ ''solium-plugin-pluginA'' @ dquote @ ''.''))"
  by (simp add: load_def load_rule_def plugin_branch_def bind_err_def js_index_def to_str_def
      SOLIUM_PLUGIN_PREFIX_def example_heap_def example_inherited_def)

text \<open>
  C3. Take any list of names in which every name with a \<^verbatim>\<open>/\<close> has its plugin in the
  table, under \<^verbatim>\<open>"solium-plugin-"\<close> followed by the first segment, and
  \<^verbatim>\<open>plugin.rules[ruleName]\<close>, with the second segment as \<^verbatim>\<open>ruleName\<close>, evaluates to a
  value (\<^verbatim>\<open>undefined\<close> and inherited members included: nothing is checked). Then \<^verbatim>\<open>load\<close>
  returns the registry, every such name of the list is bound to exactly that value, the
  registry is the old one updated with these bindings in the order of the list, and
  no other object changes.
\<close>

theorem load_binds_plugin_rule:
  assumes "\<forall>name\<in>set listOfRules. CHR ''/'' \<in> set name \<longrightarrow>
      (\<exists>plugin rules.
         get_prop inherited h plugins (''solium-plugin-'' @ first_segment name) = Inr plugin
       \<and> get_prop inherited h plugin ''rules'' = Inr rules
       \<and> get_prop inherited h rules (second_segment name) = Inr (impl name))"
  shows "\<exists>h'. load inherited ruleDefs h listOfRules plugins = (Inr (Ref ruleDefs), h')
           \<and> (\<forall>name\<in>set listOfRules. CHR ''/'' \<in> set name \<longrightarrow>
                 map_of (objs h' ruleDefs) name = Some (impl name))
           \<and> objs h' ruleDefs
               = foldl (\<lambda>registry name. AList.update name (impl name) registry) (objs h ruleDefs)
                   (filter (\<lambda>name. CHR ''/'' \<in> set name) listOfRules)
           \<and> (\<forall>a. a \<noteq> ruleDefs \<longrightarrow> objs h' a = objs h a)
           \<and> lim h' = lim h"
  using assms by (rule load_binds)

theorem load_binds_plugin_rule_witness:
  "first_segment ''pluginA/ruleB'' = ''pluginA'' \<and> second_segment ''pluginA/ruleB'' = ''ruleB''
   \<and> first_segment ''pluginA/constructor'' = ''pluginA''
   \<and> second_segment ''pluginA/constructor'' = ''constructor''
   \<and> get_prop example_inherited example_heap (Ref 6) ''solium-plugin-pluginA'' = Inr (Ref 5)
   \<and> get_prop example_inherited example_heap (Ref 5) ''rules'' = Inr (Ref 4)
   \<and> get_prop example_inherited example_heap (Ref 4) ''ruleB'' = Inr (Ref 3)
   \<and> get_prop example_inherited example_heap (Ref 4) ''constructor'' = Inr (Ref 10)
   \<and> fst (load example_inherited 0 example_heap [''pluginA/ruleB''] (Ref 6)) = Inr (Ref 0)
   \<and> objs (snd (load example_inherited 0 example_heap [''pluginA/ruleB''] (Ref 6))) 0
       = [(''pluginA/ruleB'', Ref 3)]
   \<and> fst (load example_inherited 0 example_heap
             [''quotes'', ''pluginA/ruleB'', ''pluginA/constructor''] (Ref 6)) = Inr (Ref 0)
   \<and> objs (snd (load example_inherited 0 example_heap
             [''quotes'', ''pluginA/ruleB'', ''pluginA/constructor''] (Ref 6))) 0
       = [(''pluginA/ruleB'', Ref 3), (''pluginA/constructor'', Ref 10)]"
proof -
  let ?impl = "\<lambda>name. if name = ''pluginA/ruleB'' then Ref 3 else Ref 10"
  have seg: "first_segment ''pluginA/ruleB'' = ''pluginA''"
    "second_segment ''pluginA/ruleB'' = ''ruleB''"
    "first_segment ''pluginA/constructor'' = ''pluginA''"
    "second_segment ''pluginA/constructor'' = ''constructor''"
    by (simp_all add: first_segment_def second_segment_def)
  have get: "get_prop example_inherited example_heap (Ref 6) ''solium-plugin-pluginA'' = Inr (Ref 5)"
    "get_prop example_inherited example_heap (Ref 5) ''rules'' = Inr (Ref 4)"
    "get_prop example_inherited example_heap (Ref 4) ''ruleB'' = Inr (Ref 3)"
    "get_prop example_inherited example_heap (Ref 4) ''constructor'' = Inr (Ref 10)"
    by (simp_all add: example_heap_def example_inherited_def)
  have reg: "objs example_heap 0 = []"
    by (simp add: example_heap_def)
  have one: "\<forall>name\<in>set [''pluginA/ruleB'']. CHR ''/'' \<in> set name \<longrightarrow>
      (\<exists>plugin rules.
         get_prop example_inherited example_heap (Ref 6) (''solium-plugin-'' @ first_segment name)
           = Inr plugin
       \<and> get_prop example_inherited example_heap plugin ''rules'' = Inr rules
       \<and> get_prop example_inherited example_heap rules (second_segment name) = Inr (?impl name))"
    by (simp del: get_prop.simps add: seg get)
  have three: "\<forall>name\<in>set [''quotes'', ''pluginA/ruleB'', ''pluginA/constructor''].
      CHR ''/'' \<in> set name \<longrightarrow>
      (\<exists>plugin rules.
         get_prop example_inherited example_heap (Ref 6) (''solium-plugin-'' @ first_segment name)
           = Inr plugin
       \<and> get_prop example_inherited example_heap plugin ''rules'' = Inr rules
       \<and> get_prop example_inherited example_heap rules (second_segment name) = Inr (?impl name))"
    by (simp del: get_prop.simps add: seg get)
  from load_binds_plugin_rule [OF one, of 0] reg
  have a: "fst (load example_inherited 0 example_heap [''pluginA/ruleB''] (Ref 6)) = Inr (Ref 0)
      \<and> objs (snd (load example_inherited 0 example_heap [''pluginA/ruleB''] (Ref 6))) 0
          = [(''pluginA/ruleB'', Ref 3)]"
    by auto
  from load_binds_plugin_rule [OF three, of 0] reg
  have b: "fst (load example_inherited 0 example_heap
             [''quotes'', ''pluginA/ruleB'', ''pluginA/constructor''] (Ref 6)) = Inr (Ref 0)
      \<and> objs (snd (load example_inherited 0 example_heap
             [''quotes'', ''pluginA/ruleB'', ''pluginA/constructor''] (Ref 6))) 0
          = [(''pluginA/ruleB'', Ref 3), (''pluginA/constructor'', Ref 10)]"
    by auto
  from seg get a b show ?thesis by simp
qed

text \<open>
  C7. With the registry as the module builds it: a builtin rule name is bound to what
  \<^verbatim>\<open>require\<close> returned for it, \<^verbatim>\<open>load\<close> of that name leaves the whole store as it is in
  every state (so a second call does the same as the first), and \<^verbatim>\<open>load\<close> of any list
  leaves every registry key outside the list as it was, whether it returns or throws.
\<close>

theorem load_core_rule_unchanged:
  assumes "name \<in> set core_rule_names"
    and "module_init require_rule h0 = (ruleDefs, h)"
  shows "map_of (objs h ruleDefs) name = Some (require_rule (''../rules/'' @ name))
       \<and> load inherited ruleDefs h [name] plugins = (Inr (Ref ruleDefs), h)
       \<and> load inherited ruleDefs h1 [name] plugins = (Inr (Ref ruleDefs), h1)
       \<and> load inherited ruleDefs (snd (load inherited ruleDefs h1 [name] plugins)) [name] plugins
           = load inherited ruleDefs h1 [name] plugins
       \<and> (k \<notin> set names \<longrightarrow>
            map_of (objs (snd (load inherited ruleDefs h1 names plugins)) ruleDefs) k
              = map_of (objs h1 ruleDefs) k)"
proof -
  from assms(2) have "objs h ruleDefs = ruleDefs_literal require_rule"
    by (auto simp: module_init_def new_object_def)
  with assms(1) have seeded: "map_of (objs h ruleDefs) name = Some (require_rule (''../rules/'' @ name))"
    by (simp add: map_of_ruleDefs_literal)
  from assms(1) have "CHR ''/'' \<notin> set name"
    by (rule core_rule_names_no_slash)
  then have same: "load inherited ruleDefs h' [name] plugins = (Inr (Ref ruleDefs), h')" for h'
    by (simp add: load_def load_rule_core)
  have other: "k \<notin> set names \<longrightarrow>
      map_of (objs (snd (load inherited ruleDefs h1 names plugins)) ruleDefs) k
        = map_of (objs h1 ruleDefs) k"
    by (simp add: snd_load forEach_load_other_key)
  from seeded same other show ?thesis by simp
qed

theorem load_core_rule_unchanged_witness:
  "''quotes'' \<in> set core_rule_names
   \<and> module_init example_require_rule example_heap = (13, snd (module_init example_require_rule example_heap))
   \<and> map_of (objs (snd (module_init example_require_rule example_heap)) 13) ''quotes'' = Some (Ref 3)
   \<and> load example_inherited 13 (snd (module_init example_require_rule example_heap)) [''quotes''] (Ref 7)
       = (Inr (Ref 13), snd (module_init example_require_rule example_heap))
   \<and> ''quotes'' \<notin> set [''pluginA/ruleB'']
   \<and> map_of (objs (snd (load example_inherited 13 (snd (module_init example_require_rule example_heap))
                         [''pluginA/ruleB''] (Ref 6))) 13) ''quotes''
        = Some (Ref 3)"
proof -
  have a: "''quotes'' \<in> set core_rule_names"
    by (simp add: core_rule_names_def)
  have b: "module_init example_require_rule example_heap
             = (13, snd (module_init example_require_rule example_heap))"
    by (simp add: module_init_def new_object_def example_heap_def)
  from load_core_rule_unchanged [OF a b, of example_inherited "Ref 7"
      "snd (module_init example_require_rule example_heap)" "''quotes''" "[''pluginA/ruleB'']"]
    load_core_rule_unchanged [OF a b, of example_inherited "Ref 6"
      "snd (module_init example_require_rule example_heap)" "''quotes''" "[''pluginA/ruleB'']"]
    a b
  show ?thesis by (simp add: example_require_rule_def)
qed

text \<open>
  C10. A name \<open>p/r/rest\<close> with two or more separators takes the plugin branch with
  \<^verbatim>\<open>"solium-plugin-" + p\<close> as package and \<open>r\<close> as rule name, in every state; \<open>rest\<close> is
  used nowhere but in the registry key, which is the full name. Wherever the name stands
  in a list whose qualified names all resolve, \<^verbatim>\<open>load\<close> returns the registry with the
  full name bound to the value of \<^verbatim>\<open>plugins["solium-plugin-" + p].rules[r]\<close>.
\<close>

theorem load_multi_segment_name:
  assumes "CHR ''/'' \<notin> set p" and "CHR ''/'' \<notin> set r"
    and "p @ ''/'' @ r @ ''/'' @ rest \<in> set listOfRules"
    and "\<forall>name\<in>set listOfRules. CHR ''/'' \<in> set name \<longrightarrow>
      (\<exists>plugin rules impl.
         get_prop inherited h plugins (''solium-plugin-'' @ first_segment name) = Inr plugin
       \<and> get_prop inherited h plugin ''rules'' = Inr rules
       \<and> get_prop inherited h rules (second_segment name) = Inr impl)"
    and "get_prop inherited h plugins (''solium-plugin-'' @ p) = Inr plugin"
    and "get_prop inherited h plugin ''rules'' = Inr rules"
    and "get_prop inherited h rules r = Inr v"
  shows "CHR ''/'' \<in> set (p @ ''/'' @ r @ ''/'' @ rest)
       \<and> load_rule inherited ruleDefs h' (p @ ''/'' @ r @ ''/'' @ rest) plugins
           = plugin_branch inherited ruleDefs h' (p @ ''/'' @ r @ ''/'' @ rest)
               (''solium-plugin-'' @ p) r plugins
       \<and> (\<exists>h''. load inherited ruleDefs h listOfRules plugins = (Inr (Ref ruleDefs), h'')
             \<and> map_of (objs h'' ruleDefs) (p @ ''/'' @ r @ ''/'' @ rest) = Some v)"
proof -
  let ?name = "p @ CHR ''/'' # r @ CHR ''/'' # rest"
  have slash: "CHR ''/'' \<in> set ?name" by simp
  have first: "first_segment ?name = p"
    using assms(1) by (rule first_segment_append)
  have second: "second_segment ?name = r"
    using assms(1,2) by (simp add: second_segment_append takeWhile_upto_slash)
  have routing: "load_rule inherited ruleDefs h' ?name plugins
      = plugin_branch inherited ruleDefs h' ?name (''solium-plugin-'' @ p) r plugins"
    using load_rule_qualified [OF slash, of inherited ruleDefs h' plugins]
    by (simp only: first second SOLIUM_PLUGIN_PREFIX_def)
  let ?P = "\<lambda>name impl. CHR ''/'' \<in> set name \<longrightarrow>
      (\<exists>plugin rules.
         get_prop inherited h plugins (''solium-plugin-'' @ first_segment name) = Inr plugin
       \<and> get_prop inherited h plugin ''rules'' = Inr rules
       \<and> get_prop inherited h rules (second_segment name) = Inr impl)"
  from assms(4) have "\<forall>name\<in>set listOfRules. \<exists>impl. ?P name impl" by blast
  from bchoice [OF this] obtain impl where impl: "\<forall>name\<in>set listOfRules. ?P name (impl name)" ..
  from load_binds [OF impl, of ruleDefs] obtain h'' where
    ret: "load inherited ruleDefs h listOfRules plugins = (Inr (Ref ruleDefs), h'')"
    and bound: "\<forall>name\<in>set listOfRules. CHR ''/'' \<in> set name \<longrightarrow>
                  map_of (objs h'' ruleDefs) name = Some (impl name)"
    by blast
  from assms(3) have mem: "?name \<in> set listOfRules" by simp
  with impl slash have "\<exists>plugin rules.
         get_prop inherited h plugins (''solium-plugin-'' @ first_segment ?name) = Inr plugin
       \<and> get_prop inherited h plugin ''rules'' = Inr rules
       \<and> get_prop inherited h rules (second_segment ?name) = Inr (impl ?name)"
    by blast
  then obtain plugin' rules' where
    "get_prop inherited h plugins (''solium-plugin-'' @ p) = Inr plugin'"
    "get_prop inherited h plugin' ''rules'' = Inr rules'"
    "get_prop inherited h rules' r = Inr (impl ?name)"
    unfolding first second by blast
  with assms(5-7) have "impl ?name = v" by simp
  with bound mem slash have "map_of (objs h'' ruleDefs) ?name = Some v" by blast
  with ret routing show ?thesis by auto
qed

theorem load_multi_segment_name_witness:
  "CHR ''/'' \<notin> set ''pluginA'' \<and> CHR ''/'' \<notin> set ''ruleB''
   \<and> ''pluginA/ruleB/c'' \<in> set [''quotes'', ''pluginA/ruleB/c'', ''pluginA/ruleB'']
   \<and> get_prop example_inherited example_heap (Ref 6) ''solium-plugin-pluginA'' = Inr (Ref 5)
   \<and> get_prop example_inherited example_heap (Ref 5) ''rules'' = Inr (Ref 4)
   \<and> get_prop example_inherited example_heap (Ref 4) ''ruleB'' = Inr (Ref 3)
   \<and> load_rule example_inherited 0 example_heap ''pluginA/ruleB/c'' (Ref 6)
       = plugin_branch example_inherited 0 example_heap ''pluginA/ruleB/c''
           ''solium-plugin-pluginA'' ''ruleB'' (Ref 6)
   \<and> fst (load example_inherited 0 example_heap
             [''quotes'', ''pluginA/ruleB/c'', ''pluginA/ruleB''] (Ref 6)) = Inr (Ref 0)
   \<and> map_of (objs (snd (load example_inherited 0 example_heap
             [''quotes'', ''pluginA/ruleB/c'', ''pluginA/ruleB''] (Ref 6))) 0) ''pluginA/ruleB/c''
       = Some (Ref 3)"
proof -
  have a: "CHR ''/'' \<notin> set ''pluginA''" and b: "CHR ''/'' \<notin> set ''ruleB''" by simp_all
  have m: "''pluginA'' @ ''/'' @ ''ruleB'' @ ''/'' @ ''c''
             \<in> set [''quotes'', ''pluginA/ruleB/c'', ''pluginA/ruleB'']" by simp
  have seg: "first_segment ''pluginA/ruleB/c'' = ''pluginA''"
    "second_segment ''pluginA/ruleB/c'' = ''ruleB''"
    "first_segment ''pluginA/ruleB'' = ''pluginA''"
    "second_segment ''pluginA/ruleB'' = ''ruleB''"
    by (simp_all add: first_segment_def second_segment_def)
  have get: "get_prop example_inherited example_heap (Ref 6) ''solium-plugin-pluginA'' = Inr (Ref 5)"
    "get_prop example_inherited example_heap (Ref 5) ''rules'' = Inr (Ref 4)"
    "get_prop example_inherited example_heap (Ref 4) ''ruleB'' = Inr (Ref 3)"
    by (simp_all add: example_heap_def example_inherited_def)
  have all: "\<forall>name\<in>set [''quotes'', ''pluginA/ruleB/c'', ''pluginA/ruleB''].
      CHR ''/'' \<in> set name \<longrightarrow>
      (\<exists>plugin rules impl.
         get_prop example_inherited example_heap (Ref 6) (''solium-plugin-'' @ first_segment name)
           = Inr plugin
       \<and> get_prop example_inherited example_heap plugin ''rules'' = Inr rules
       \<and> get_prop example_inherited example_heap rules (second_segment name) = Inr impl)"
    by (simp del: get_prop.simps add: seg get)
  have get': "get_prop example_inherited example_heap (Ref 6) (''solium-plugin-'' @ ''pluginA'') = Inr (Ref 5)"
    using get(1) by simp
  from load_multi_segment_name [OF a b m all get' get(2,3), of 0 example_heap] a b m get
  show ?thesis by auto
qed

section \<open>Properties of resolvePluginConfig\<close>

lemma val_ok_simps:
  "val_ok h Undefined" "val_ok h Null" "val_ok h (Bool b)" "val_ok h (Num n)" "val_ok h (Str s)"
  "val_ok h (Ref a) = (a < lim h)"
  by (simp_all add: val_ok_def)

lemma wf_heap_value:
  assumes "wf_heap h" and "a < lim h" and "map_of (objs h a) k = Some v"
  shows "val_ok h v"
proof -
  from assms(3) have "(k, v) \<in> set (objs h a)"
    by (rule map_of_SomeD)
  moreover from assms(1,2) have "list_all (\<lambda>(k, v). val_ok h v) (objs h a)"
    by (simp add: wf_heap_def)
  ultimately show ?thesis
    by (auto simp: list_all_iff)
qed

lemma get_prop_val_ok:
  assumes "wf_heap h" and "\<forall>v k. val_ok h (inherited v k)"
    and "val_ok h v" and "get_prop inherited h v k = Inr w"
  shows "val_ok h w"
proof (cases v)
  case (Ref a)
  with assms(3) have "a < lim h" by (simp add: val_ok_simps)
  with assms(1,2,4) Ref show ?thesis
    by (auto simp: val_ok_simps split: option.splits dest: wf_heap_value)
next
  case (Str s)
  with assms(2,4) show ?thesis
    by (auto simp: val_ok_simps split: if_splits option.splits)
qed (use assms(2,4) in \<open>auto simp: val_ok_simps\<close>)

lemma get_prop_agree:
  assumes "val_ok h v" and "\<forall>a<lim h. objs h' a = objs h a"
  shows "get_prop inherited h' v k = get_prop inherited h v k"
  using assms by (cases v) (simp_all add: val_ok_simps)

lemma bind_get_agree:
  assumes "wf_heap h" and "\<forall>v k. val_ok h (inherited v k)"
    and "val_ok h v" and "\<forall>a<lim h. objs h' a = objs h a"
    and "\<And>w. val_ok h w \<Longrightarrow> f' w = f w"
  shows "bind_err (get_prop inherited h' v k) f' = bind_err (get_prop inherited h v k) f"
proof -
  have eq: "get_prop inherited h' v k = get_prop inherited h v k"
    using assms(3,4) by (rule get_prop_agree)
  show ?thesis
  proof (cases "get_prop inherited h v k")
    case (Inl e)
    with eq show ?thesis by (simp add: bind_err_def)
  next
    case (Inr w)
    with assms(1-3) have "val_ok h w" by (rule get_prop_val_ok)
    with assms(5) Inr eq show ?thesis by (simp add: bind_err_def)
  qed
qed

lemma rule_type_agree:
  assumes "wf_heap h" and "\<forall>v k. val_ok h (inherited v k)"
    and "val_ok h plugin" and "\<forall>a<lim h. objs h' a = objs h a"
  shows "rule_type inherited h' plugin k = rule_type inherited h plugin k"
  unfolding rule_type_def
  by (intro bind_get_agree get_prop_agree assms)

lemma update_fresh: "k \<notin> fst ` set al \<Longrightarrow> AList.update k v al = al @ [(k, v)]"
  by (induction al) auto

lemma config_key_inj: "config_key name k = config_key name k' \<longleftrightarrow> k = k'"
  by (simp add: config_key_def)

lemma forEach_config_appends:
  assumes "wf_heap h" and "\<forall>v k. val_ok h (inherited v k)"
    and "val_ok h plugin" and "lim h \<le> config"
    and "\<forall>a<lim h. objs hc a = objs h a"
    and "\<forall>k\<in>set keys. rule_type inherited h plugin k = Inr (t k)"
    and "distinct keys"
    and "\<forall>k\<in>set keys. config_key name k \<notin> fst ` set (objs hc config)"
  shows "fst (forEach_config inherited hc config name plugin keys) = Inr ()
       \<and> lim (snd (forEach_config inherited hc config name plugin keys)) = lim hc
       \<and> objs (snd (forEach_config inherited hc config name plugin keys)) config
           = objs hc config @ map (\<lambda>k. (config_key name k, t k)) keys
       \<and> (\<forall>a. a \<noteq> config \<longrightarrow>
            objs (snd (forEach_config inherited hc config name plugin keys)) a = objs hc a)"
  using assms(5-8)
proof (induction keys arbitrary: hc)
  case Nil
  then show ?case by simp
next
  case (Cons k ks)
  let ?h1 = "set_prop hc config (config_key name k) (t k)"
  from Cons.prems(1) have "rule_type inherited hc plugin k = rule_type inherited h plugin k"
    by (intro rule_type_agree assms(1-3))
  with Cons.prems(2) have rt: "rule_type inherited hc plugin k = Inr (t k)" by simp
  from Cons.prems(4) have "config_key name k \<notin> fst ` set (objs hc config)" by simp
  then have h1: "objs ?h1 config = objs hc config @ [(config_key name k, t k)]"
    by (simp add: set_prop_def update_fresh)
  have h1': "a \<noteq> config \<Longrightarrow> objs ?h1 a = objs hc a" for a
    by (simp add: set_prop_def)
  have a: "\<forall>a<lim h. objs ?h1 a = objs h a"
    using Cons.prems(1) assms(4) by (simp add: h1')
  have b: "\<forall>k'\<in>set ks. rule_type inherited h plugin k' = Inr (t k')"
    using Cons.prems(2) by simp
  have c: "distinct ks" using Cons.prems(3) by simp
  have d: "\<forall>k'\<in>set ks. config_key name k' \<notin> fst ` set (objs ?h1 config)"
    using Cons.prems(3,4) by (auto simp: h1 config_key_inj)
  have step: "forEach_config inherited hc config name plugin (k # ks)
      = forEach_config inherited ?h1 config name plugin ks"
    by (simp add: rt)
  from Cons.IH [OF a b c d] show ?case
    unfolding step by (simp add: h1 h1' lim_set_prop)
qed

lemma list_all2_map_right: "\<forall>x\<in>set xs. P x (g x) \<Longrightarrow> list_all2 P xs (map g xs)"
  by (induction xs) auto

text \<open>
  C6. In a well-formed store, for a plugin whose \<^verbatim>\<open>rules\<close> is an object each of whose
  rules has a \<^verbatim>\<open>meta\<close> with a \<^verbatim>\<open>docs\<close>: \<^verbatim>\<open>resolvePluginConfig\<close> returns a reference to an
  object at an address that was not in use, every object that was in the store is as it
  was, and the new object has, in the order of the keys of \<^verbatim>\<open>plugin.rules\<close>, exactly one
  entry per key, keyed \<^verbatim>\<open>name + "/" + ruleName\<close> and holding the value that the reads
  \<^verbatim>\<open>.meta\<close>, \<^verbatim>\<open>.docs\<close>, \<^verbatim>\<open>.type\<close> give from that rule. The example of the claim is the witness.
\<close>

theorem resolvePluginConfig_entries:
  assumes "wf_heap h" and "\<forall>v k. val_ok h (inherited v k)" and "val_ok h plugin"
    and "get_prop inherited h plugin ''rules'' = Inr (Ref rules)"
    and "\<forall>(ruleName, rule) \<in> set (objs h rules). \<exists>meta docs t.
           get_prop inherited h rule ''meta'' = Inr meta
         \<and> get_prop inherited h meta ''docs'' = Inr docs
         \<and> get_prop inherited h docs ''type'' = Inr t"
  shows "\<exists>h'. resolvePluginConfig inherited h name plugin = (Inr (Ref (lim h)), h')
           \<and> lim h' = Suc (lim h)
           \<and> (\<forall>a. a \<noteq> lim h \<longrightarrow> objs h' a = objs h a)
           \<and> list_all2 (\<lambda>(ruleName, rule) (key, t).
                  key = name @ ''/'' @ ruleName
                \<and> (\<exists>meta docs.
                       get_prop inherited h rule ''meta'' = Inr meta
                     \<and> get_prop inherited h meta ''docs'' = Inr docs
                     \<and> get_prop inherited h docs ''type'' = Inr t))
                (objs h rules) (objs h' (lim h))"
proof -
  let ?h0 = "h\<lparr>objs := (objs h)(lim h := []), lim := Suc (lim h)\<rparr>"
  let ?xs = "objs h rules"
  let ?keys = "map fst ?xs"
  let ?Q = "\<lambda>x t. \<exists>meta docs.
           get_prop inherited h (snd x) ''meta'' = Inr meta
         \<and> get_prop inherited h meta ''docs'' = Inr docs
         \<and> get_prop inherited h docs ''type'' = Inr t"
  from assms(5) have "\<forall>x\<in>set ?xs. \<exists>t. ?Q x t" by fastforce
  from bchoice [OF this] obtain f where f: "\<forall>x\<in>set ?xs. ?Q x (f x)" ..
  define ty where "ty k = f (k, the (map_of ?xs k))" for k
  have agree: "\<forall>a<lim h. objs ?h0 a = objs h a" by simp
  from assms(1-4) have "val_ok h (Ref rules)" by (rule get_prop_val_ok)
  then have rules: "rules < lim h" by (simp add: val_ok_simps)
  with assms(1) have dist: "distinct ?keys" by (simp add: wf_heap_def)
  have own: "map_of ?xs k = Some rule" if "(k, rule) \<in> set ?xs" for k rule
    using dist that by simp
  have ty: "ty (fst x) = f x" if "x \<in> set ?xs" for x
    using own [of "fst x" "snd x"] that by (simp add: ty_def)
  have t: "\<forall>k\<in>set ?keys. rule_type inherited h plugin k = Inr (ty k)"
  proof
    fix k assume "k \<in> set ?keys"
    then obtain rule where x: "(k, rule) \<in> set ?xs" by auto
    with f obtain meta docs where
      "get_prop inherited h rule ''meta'' = Inr meta"
      "get_prop inherited h meta ''docs'' = Inr docs"
      "get_prop inherited h docs ''type'' = Inr (f (k, rule))"
      by fastforce
    moreover have "get_prop inherited h (Ref rules) k = Inr rule"
      using own [OF x] by simp
    moreover have "ty k = f (k, rule)"
      using ty [OF x] by simp
    ultimately show "rule_type inherited h plugin k = Inr (ty k)"
      using assms(4) by (simp add: rule_type_def bind_err_def)
  qed
  let ?entries = "map (\<lambda>k. (config_key name k, ty k)) ?keys"
  obtain r h' where l: "forEach_config inherited ?h0 (lim h) name plugin ?keys = (r, h')"
    by (cases "forEach_config inherited ?h0 (lim h) name plugin ?keys")
  have "get_prop inherited ?h0 plugin ''rules'' = Inr (Ref rules)"
    using get_prop_agree [OF assms(3) agree] assms(4) by simp
  moreover have "object_keys ?h0 (Ref rules) = Inr ?keys"
    using rules by simp
  ultimately have keys:
    "bind_err (get_prop inherited ?h0 plugin ''rules'') (object_keys ?h0) = Inr ?keys"
    by (simp add: bind_err_def)
  have "fst (forEach_config inherited ?h0 (lim h) name plugin ?keys) = Inr ()
      \<and> lim (snd (forEach_config inherited ?h0 (lim h) name plugin ?keys)) = lim ?h0
      \<and> objs (snd (forEach_config inherited ?h0 (lim h) name plugin ?keys)) (lim h)
          = objs ?h0 (lim h) @ ?entries
      \<and> (\<forall>a. a \<noteq> lim h \<longrightarrow>
            objs (snd (forEach_config inherited ?h0 (lim h) name plugin ?keys)) a = objs ?h0 a)"
    by (rule forEach_config_appends [OF assms(1-3) _ agree t dist]) simp_all
  with l have loop: "r = Inr ()" "lim h' = Suc (lim h)" "objs h' (lim h) = ?entries"
    "\<forall>a. a \<noteq> lim h \<longrightarrow> objs h' a = objs h a"
    by simp_all
  have res: "resolvePluginConfig inherited h name plugin = (Inr (Ref (lim h)), h')"
    unfolding resolvePluginConfig_def new_object_def by (simp add: keys l loop(1))
  let ?P = "\<lambda>(ruleName, rule) (key, t).
                  key = name @ ''/'' @ ruleName
                \<and> (\<exists>meta docs.
                       get_prop inherited h rule ''meta'' = Inr meta
                     \<and> get_prop inherited h meta ''docs'' = Inr docs
                     \<and> get_prop inherited h docs ''type'' = Inr t)"
  have eq: "?entries = map (\<lambda>x. (name @ ''/'' @ fst x, f x)) ?xs"
    using ty by (auto simp: config_key_def)
  have "list_all2 ?P ?xs (map (\<lambda>x. (name @ ''/'' @ fst x, f x)) ?xs)"
    using f by (intro list_all2_map_right) (auto simp del: get_prop.simps)
  then have "list_all2 ?P ?xs (objs h' (lim h))"
    unfolding loop(3) eq .
  with res loop show ?thesis
    by (intro exI [of _ h']) simp
qed

theorem resolvePluginConfig_entries_witness:
  "wf_heap example_heap \<and> val_ok example_heap (Ref 9)
   \<and> get_prop example_inherited example_heap (Ref 9) ''rules'' = Inr (Ref 8)
   \<and> objs example_heap 8 = [(''bar'', Ref 3)]
   \<and> get_prop example_inherited example_heap (Ref 3) ''meta'' = Inr (Ref 2)
   \<and> get_prop example_inherited example_heap (Ref 2) ''docs'' = Inr (Ref 1)
   \<and> get_prop example_inherited example_heap (Ref 1) ''type'' = Inr (Str ''security'')
   \<and> fst (resolvePluginConfig example_inherited example_heap ''foo'' (Ref 9)) = Inr (Ref 13)
   \<and> objs (snd (resolvePluginConfig example_inherited example_heap ''foo'' (Ref 9))) 13
       = [(''foo/bar'', Str ''security'')]
   \<and> objs (snd (resolvePluginConfig example_inherited example_heap ''foo'' (Ref 9))) 8
       = objs example_heap 8"
proof -
  have a: "wf_heap example_heap"
    by (auto simp: wf_heap_def example_heap_def val_ok_def)
  have i: "\<forall>v k. val_ok example_heap (example_inherited v k)"
    by (auto simp: val_ok_def example_inherited_def example_heap_def split: jsval.splits)
  have b: "val_ok example_heap (Ref 9)"
    by (simp add: val_ok_def example_heap_def)
  have c: "get_prop example_inherited example_heap (Ref 9) ''rules'' = Inr (Ref 8)"
    by (simp add: example_heap_def)
  have g: "objs example_heap 8 = [(''bar'', Ref 3)]" "lim example_heap = 13"
    by (simp_all add: example_heap_def)
  have e: "get_prop example_inherited example_heap (Ref 3) ''meta'' = Inr (Ref 2)"
    "get_prop example_inherited example_heap (Ref 2) ''docs'' = Inr (Ref 1)"
    "get_prop example_inherited example_heap (Ref 1) ''type'' = Inr (Str ''security'')"
    by (simp_all add: example_heap_def)
  have f: "\<forall>(ruleName, rule) \<in> set (objs example_heap 8). \<exists>meta docs t.
           get_prop example_inherited example_heap rule ''meta'' = Inr meta
         \<and> get_prop example_inherited example_heap meta ''docs'' = Inr docs
         \<and> get_prop example_inherited example_heap docs ''type'' = Inr t"
    unfolding g by (simp add: example_heap_def)
  from resolvePluginConfig_entries [OF a i b c f, of "''foo''"]
  obtain h' where "resolvePluginConfig example_inherited example_heap ''foo'' (Ref 9) = (Inr (Ref 13), h')"
    and "\<forall>a. a \<noteq> 13 \<longrightarrow> objs h' a = objs example_heap a"
    and "list_all2 (\<lambda>(ruleName, rule) (key, t).
            key = ''foo'' @ ''/'' @ ruleName
          \<and> (\<exists>meta docs.
                 get_prop example_inherited example_heap rule ''meta'' = Inr meta
               \<and> get_prop example_inherited example_heap meta ''docs'' = Inr docs
               \<and> get_prop example_inherited example_heap docs ''type'' = Inr t))
          [(''bar'', Ref 3)] (objs h' 13)"
    unfolding g by blast
  with a b c g(1) e show ?thesis
    by (auto simp del: get_prop.simps simp: list_all2_Cons1)
qed

section \<open>Round trip between resolvePluginConfig and load\<close>

text \<open>
  C8, as amended. When neither the plugin name nor the rule name contains \<^verbatim>\<open>/\<close>, the
  key that \<^verbatim>\<open>resolvePluginConfig\<close> builds contains one, \<^verbatim>\<open>load\<close> takes its plugin branch
  for it and splits it into exactly the plugin name and the rule name.
\<close>

theorem config_key_round_trip:
  assumes "CHR ''/'' \<notin> set name" and "CHR ''/'' \<notin> set ruleName"
  shows "CHR ''/'' \<in> set (config_key name ruleName)
       \<and> str_split (CHR ''/'') (config_key name ruleName) = [name, ruleName]
       \<and> load_rule inherited ruleDefs h (config_key name ruleName) plugins
           = plugin_branch inherited ruleDefs h (config_key name ruleName)
               (SOLIUM_PLUGIN_PREFIX @ name) ruleName plugins"
proof -
  have "str_split (CHR ''/'') (config_key name ruleName) = [name, ruleName]"
    using assms by (simp add: config_key_def str_split_append str_split_none)
  then show ?thesis
    by (simp add: load_rule_def js_index_def to_str_def) (simp add: config_key_def)
qed

theorem config_key_round_trip_witness:
  "CHR ''/'' \<notin> set ''foo'' \<and> CHR ''/'' \<notin> set ''bar''
   \<and> str_split (CHR ''/'') (config_key ''foo'' ''bar'') = [''foo'', ''bar'']
   \<and> load_rule example_inherited 0 example_heap (config_key ''foo'' ''bar'') (Ref 6)
      = plugin_branch example_inherited 0 example_heap (config_key ''foo'' ''bar'')
          (SOLIUM_PLUGIN_PREFIX @ ''foo'') ''bar'' (Ref 6)"
proof -
  have a: "CHR ''/'' \<notin> set ''foo''" and b: "CHR ''/'' \<notin> set ''bar''" by simp_all
  from config_key_round_trip [OF a b, of example_inherited 0 example_heap "Ref 6"] a b
  show ?thesis by simp
qed

text \<open>
  C8 as stated puts no condition on the plugin name. For the plugin name \<^verbatim>\<open>a/b\<close> and
  the rule name \<^verbatim>\<open>c\<close> the key is \<^verbatim>\<open>a/b/c\<close>, which \<^verbatim>\<open>load\<close> splits into the plugin name
  \<^verbatim>\<open>a\<close> and the rule name \<^verbatim>\<open>b\<close>.
\<close>

theorem config_key_round_trip_counterexample:
  "CHR ''/'' \<notin> set ''c''
   \<and> CHR ''/'' \<in> set (config_key ''a/b'' ''c'')
   \<and> str_split (CHR ''/'') (config_key ''a/b'' ''c'') = [''a'', ''b'', ''c'']
   \<and> to_str (js_index (str_split (CHR ''/'') (config_key ''a/b'' ''c'')) 0) \<noteq> ''a/b''
   \<and> to_str (js_index (str_split (CHR ''/'') (config_key ''a/b'' ''c'')) 1) \<noteq> ''c''"
  by (simp add: config_key_def js_index_def to_str_def)

section \<open>Properties of resolveUpstream\<close>

lemma lower_or_underscore_not_colon: "lower_or_underscore c \<Longrightarrow> c \<noteq> CHR '':''"
  by (auto simp: lower_or_underscore_def)

lemma coreRuleset_shape:
  assumes "coreRulesetRegExp_test upstream"
  shows "upstream = ''solium:'' @ drop 7 upstream" and "CHR '':'' \<notin> set (drop 7 upstream)"
proof -
  from assms have "take 7 upstream = ''solium:''"
    by (simp add: coreRulesetRegExp_test_def)
  then show "upstream = ''solium:'' @ drop 7 upstream"
    by (metis append_take_drop_id)
  from assms have "list_all lower_or_underscore (drop 7 upstream)"
    by (simp add: coreRulesetRegExp_test_def)
  then show "CHR '':'' \<notin> set (drop 7 upstream)"
    by (auto simp: list_all_iff dest: lower_or_underscore_not_colon)
qed

lemma coreRuleset_identifier:
  assumes "coreRulesetRegExp_test upstream"
  shows "to_str (js_index (str_split (CHR '':'') upstream) 1) = drop 7 upstream"
proof -
  have "str_split (CHR '':'') (''solium:'' @ drop 7 upstream) = [''solium'', drop 7 upstream]"
    using coreRuleset_shape(2) [OF assms] by (simp add: str_split_none)
  with coreRuleset_shape(1) [OF assms]
  have "str_split (CHR '':'') upstream = [''solium'', drop 7 upstream]" by simp
  then show ?thesis by (simp add: js_index_def to_str_def)
qed

text \<open>
  C4. For a reference that matches \<^verbatim>\<open>/^solium:[a-z_]+$/\<close>, the module acquired is the one
  at \<^verbatim>\<open>"../../config/rulesets/solium-"\<close> followed by what stands after the colon. Either
  the call returns the value of that module's \<^verbatim>\<open>rules\<close>, or it fails with the message
  \<^verbatim>\<open>"<reference>" is not a core ruleset.\<close>; it returns when the module is acquired and
  its \<^verbatim>\<open>rules\<close> can be read, and whatever \<^verbatim>\<open>require\<close> throws, the message is this one.
\<close>

theorem resolveUpstream_core_ruleset:
  assumes "coreRulesetRegExp_test upstream"
    and "require (''../../config/rulesets/solium-'' @ drop 7 upstream) h = (r, h')"
  shows "upstream = ''solium:'' @ drop 7 upstream
       \<and> ((\<exists>m rules. r = Inr m \<and> get_prop inherited h' m ''rules'' = Inr rules
              \<and> resolveUpstream inherited require isAValidSharableConfig inspect host_to_string
                   h upstream = (Inr rules, h'))
          \<or> resolveUpstream inherited require isAValidSharableConfig inspect host_to_string
               h upstream
               = (Inl (Error (dquote @ upstream @ dquote @ '' is not a core ruleset.'')), h'))
       \<and> (\<forall>m rules. r = Inr m \<longrightarrow> get_prop inherited h' m ''rules'' = Inr rules \<longrightarrow>
             resolveUpstream inherited require isAValidSharableConfig inspect host_to_string
               h upstream = (Inr rules, h'))
       \<and> (\<forall>e. r = Inl e \<longrightarrow>
             resolveUpstream inherited require isAValidSharableConfig inspect host_to_string
               h upstream
               = (Inl (Error (dquote @ upstream @ dquote @ '' is not a core ruleset.'')), h'))
       \<and> sublist upstream (dquote @ upstream @ dquote @ '' is not a core ruleset.'')"
proof -
  have res: "resolveUpstream inherited require isAValidSharableConfig inspect host_to_string
               h upstream =
      (case r of
         Inl e \<Rightarrow> (Inl (not_core_ruleset upstream), h')
       | Inr m \<Rightarrow> (case get_prop inherited h' m ''rules'' of
                    Inl e \<Rightarrow> (Inl (not_core_ruleset upstream), h')
                  | Inr rules \<Rightarrow> (Inr rules, h')))"
    unfolding resolveUpstream_def coreRuleset_identifier [OF assms(1)]
    using assms by (simp split: sum.splits)
  have sub: "sublist upstream (dquote @ upstream @ dquote @ '' is not a core ruleset.'')"
    by (rule sublist_appendI)
  from coreRuleset_shape(1) [OF assms(1)] res sub show ?thesis
    by (auto simp: not_core_ruleset_def split: sum.splits)
qed

theorem resolveUpstream_core_ruleset_witness:
  "coreRulesetRegExp_test ''solium:all''
   \<and> example_require (''../../config/rulesets/solium-'' @ drop 7 ''solium:all'') example_heap
       = (Inr (Ref 5), example_heap)
   \<and> resolveUpstream example_inherited example_require example_validator example_inspect
        example_to_string example_heap ''solium:all''
       = (Inr (Ref 4), example_heap)
   \<and> coreRulesetRegExp_test ''solium:none''
   \<and> example_require (''../../config/rulesets/solium-'' @ drop 7 ''solium:none'') example_heap
       = (Inl (Ref 11), example_heap)
   \<and> resolveUpstream example_inherited example_require example_validator example_inspect
        example_to_string example_heap ''solium:none''
       = (Inl (Error (dquote @ ''solium:none'' @ dquote @ '' is not a core ruleset.'')), example_heap)"
proof -
  have a: "coreRulesetRegExp_test ''solium:all''" "coreRulesetRegExp_test ''solium:none''"
    by (simp_all add: coreRulesetRegExp_test_def lower_or_underscore_def)
  have b: "example_require (''../../config/rulesets/solium-'' @ drop 7 ''solium:all'') example_heap
       = (Inr (Ref 5), example_heap)"
    by (simp add: example_require_def)
  have c: "example_require (''../../config/rulesets/solium-'' @ drop 7 ''solium:none'') example_heap
       = (Inl (Ref 11), example_heap)"
    by (simp add: example_require_def)
  have d: "get_prop example_inherited example_heap (Ref 5) ''rules'' = Inr (Ref 4)"
    by (simp add: example_heap_def)
  from resolveUpstream_core_ruleset [where upstream = "''solium:all''" and require = example_require
      and h = example_heap and inherited = example_inherited
      and isAValidSharableConfig = example_validator and inspect = example_inspect
      and host_to_string = example_to_string, OF a(1) b]
    resolveUpstream_core_ruleset [where upstream = "''solium:none''" and require = example_require
      and h = example_heap and inherited = example_inherited
      and isAValidSharableConfig = example_validator and inspect = example_inspect
      and host_to_string = example_to_string, OF a(2) c]
    a b c d
  show ?thesis by (simp add: dquote_def)
qed

text \<open>
  C9. Both constants are the string \<^verbatim>\<open>solium:all\<close>, so resolving the recommended ruleset
  is resolving the ruleset \<^verbatim>\<open>all\<close>: the module acquired is
  \<^verbatim>\<open>../../config/rulesets/solium-all\<close>.
\<close>

theorem recommended_ruleset_is_all:
  "SOLIUM_RULESET_ALL = ''solium:all'' \<and> SOLIUM_RULESET_RECOMMENDED = ''solium:all''
   \<and> coreRulesetRegExp_test SOLIUM_RULESET_RECOMMENDED
   \<and> resolveUpstream inherited require isAValidSharableConfig inspect host_to_string h
        SOLIUM_RULESET_RECOMMENDED
       = resolveUpstream inherited require isAValidSharableConfig inspect host_to_string h
           SOLIUM_RULESET_ALL
   \<and> resolveUpstream inherited require isAValidSharableConfig inspect host_to_string h
        SOLIUM_RULESET_RECOMMENDED
       = (case require ''../../config/rulesets/solium-all'' h of
            (Inl e, h') \<Rightarrow> (Inl (not_core_ruleset ''solium:all''), h')
          | (Inr m, h') \<Rightarrow>
              (case get_prop inherited h' m ''rules'' of
                 Inl e \<Rightarrow> (Inl (not_core_ruleset ''solium:all''), h')
               | Inr rules \<Rightarrow> (Inr rules, h')))"
  by (simp add: SOLIUM_RULESET_ALL_def SOLIUM_RULESET_RECOMMENDED_def resolveUpstream_def
      coreRulesetRegExp_test_def lower_or_underscore_def js_index_def to_str_def)

lemma sublist_mid: "sublist xs (ps @ xs @ ss)"
  by (rule sublist_appendI)

text \<open>
  C5, as amended. For a reference that does not match the pattern, the only module
  acquired is the package \<^verbatim>\<open>"solium-config-" + reference\<close>. When what is thrown has the
  \<^verbatim>\<open>code\<close> \<^verbatim>\<open>"MODULE_NOT_FOUND"\<close>, the error names both \<^verbatim>\<open>npm install -g\<close> and
  \<^verbatim>\<open>npm install --save-dev\<close> with that package. When what is thrown has another \<^verbatim>\<open>code\<close>
  (or none) and a \<^verbatim>\<open>message\<close> that is a string, or converts to one, the error contains
  that string. When the validator accepts the module the result is the read of its
  \<^verbatim>\<open>rules\<close>; when it rejects it the error contains the rendering of the validator's
  errors.
\<close>

theorem resolveUpstream_sharable_config:
  assumes "\<not> coreRulesetRegExp_test upstream"
    and "require (''solium-config-'' @ upstream) h = (r, h1)"
  shows "SOLIUM_SHARABLE_CONFIG_PREFIX @ upstream = ''solium-config-'' @ upstream
    \<and> (\<forall>require'. require' (''solium-config-'' @ upstream) h = (r, h1) \<longrightarrow>
          resolveUpstream inherited require' isAValidSharableConfig inspect host_to_string h upstream
            = resolveUpstream inherited require isAValidSharableConfig inspect host_to_string h upstream)
    \<and> (\<forall>e. r = Inl e \<longrightarrow> get_prop inherited h1 e ''code'' = Inr (Str ''MODULE_NOT_FOUND'') \<longrightarrow>
          (\<exists>msg. resolveUpstream inherited require isAValidSharableConfig inspect host_to_string
                    h upstream = (Inl (Error msg), h1)
             \<and> sublist (''npm install -g '' @ ''solium-config-'' @ upstream) msg
             \<and> sublist (''npm install --save-dev '' @ ''solium-config-'' @ upstream) msg))
    \<and> (\<forall>e code message. r = Inl e \<longrightarrow> get_prop inherited h1 e ''code'' = Inr code \<longrightarrow>
          code \<noteq> Str ''MODULE_NOT_FOUND'' \<longrightarrow>
          get_prop inherited h1 e ''message'' = Inr (Str message) \<longrightarrow>
          (\<exists>msg. resolveUpstream inherited require isAValidSharableConfig inspect host_to_string
                    h upstream = (Inl (Error msg), h1)
             \<and> sublist message msg))
    \<and> (\<forall>e code m message. r = Inl e \<longrightarrow> get_prop inherited h1 e ''code'' = Inr code \<longrightarrow>
          code \<noteq> Str ''MODULE_NOT_FOUND'' \<longrightarrow>
          get_prop inherited h1 e ''message'' = Inr m \<longrightarrow>
          js_to_string host_to_string h1 m = Inr message \<longrightarrow>
          (\<exists>msg. resolveUpstream inherited require isAValidSharableConfig inspect host_to_string
                    h upstream = (Inl (Error msg), h1)
             \<and> sublist message msg))
    \<and> (\<forall>config errors h2. r = Inr config \<longrightarrow>
          isAValidSharableConfig config h1 = ((True, errors), h2) \<longrightarrow>
          resolveUpstream inherited require isAValidSharableConfig inspect host_to_string h upstream
            = (get_prop inherited h2 config ''rules'', h2))
    \<and> (\<forall>config errors h2. r = Inr config \<longrightarrow>
          isAValidSharableConfig config h1 = ((False, errors), h2) \<longrightarrow>
          (\<exists>msg. resolveUpstream inherited require isAValidSharableConfig inspect host_to_string
                    h upstream = (Inl (Error msg), h2)
             \<and> sublist (inspect h2 errors) msg))"
proof -
  let ?pkg = "''solium-config-'' @ upstream"
  let ?res = "resolveUpstream inherited require isAValidSharableConfig inspect host_to_string h upstream"
  have pkg: "SOLIUM_SHARABLE_CONFIG_PREFIX @ upstream = ?pkg"
    by (simp add: SOLIUM_SHARABLE_CONFIG_PREFIX_def)
  from assms(2) have req: "require ?pkg h = (r, h1)"
    by simp
  note defs = resolveUpstream_def SOLIUM_SHARABLE_CONFIG_PREFIX_def Let_def
  have same: "\<forall>require'. require' ?pkg h = (r, h1) \<longrightarrow>
      resolveUpstream inherited require' isAValidSharableConfig inspect host_to_string h upstream = ?res"
    using assms(1) req by (simp add: defs)
  have not_found: "\<exists>msg. ?res = (Inl (Error msg), h1)
      \<and> sublist (''npm install -g '' @ ?pkg) msg
      \<and> sublist (''npm install --save-dev '' @ ?pkg) msg"
    if "r = Inl e" and "get_prop inherited h1 e ''code'' = Inr (Str ''MODULE_NOT_FOUND'')" for e
  proof -
    let ?msg = "(''The sharable config '' @ dquote @ ?pkg @ dquote
                     @ '' is not installed. ''
                     @ ''If Solium is installed globally, install the config globally using ''
                     @ dquote) @ (''npm install -g '' @ ?pkg) @ (dquote
                     @ ''. Else install locally using ''
                     @ dquote @ ''npm install --save-dev '' @ ?pkg @ dquote @ ''.'')"
    have "?res = (Inl (Error ?msg), h1)"
      using assms(1) req that by (simp add: defs)
    moreover have "sublist (''npm install -g '' @ ?pkg) ?msg"
      by (rule sublist_mid)
    moreover have "?msg = (''The sharable config '' @ dquote @ ?pkg @ dquote
                     @ '' is not installed. ''
                     @ ''If Solium is installed globally, install the config globally using ''
                     @ dquote @ ''npm install -g '' @ ?pkg @ dquote
                     @ ''. Else install locally using ''
                     @ dquote) @ (''npm install --save-dev '' @ ?pkg) @ (dquote @ ''.'')"
      by simp
    then have "sublist (''npm install --save-dev '' @ ?pkg) ?msg"
      by (simp only: sublist_mid)
    ultimately show ?thesis by blast
  qed
  have other: "\<exists>msg. ?res = (Inl (Error msg), h1) \<and> sublist message msg"
    if "r = Inl e" and "get_prop inherited h1 e ''code'' = Inr code"
      and "code \<noteq> Str ''MODULE_NOT_FOUND''"
      and "get_prop inherited h1 e ''message'' = Inr m"
      and "js_to_string host_to_string h1 m = Inr message" for e code m message
  proof -
    let ?msg = "(''The sharable config '' @ dquote @ ?pkg @ dquote
                     @ '' could not be loaded: '') @ message @ []"
    have "?res = (Inl (Error ?msg), h1)"
      using assms(1) req that by (simp add: defs bind_err_def)
    moreover have "sublist message ?msg"
      by (rule sublist_mid)
    ultimately show ?thesis by blast
  qed
  have other_str: "\<exists>msg. ?res = (Inl (Error msg), h1) \<and> sublist message msg"
    if "r = Inl e" and "get_prop inherited h1 e ''code'' = Inr code"
      and "code \<noteq> Str ''MODULE_NOT_FOUND''"
      and "get_prop inherited h1 e ''message'' = Inr (Str message)" for e code message
    using that by (intro other [of e code "Str message"]) (simp_all add: js_to_string_def)
  have valid: "?res = (get_prop inherited h2 config ''rules'', h2)"
    if "r = Inr config" and "isAValidSharableConfig config h1 = ((True, errors), h2)"
    for config errors h2
    using assms(1) req that by (simp add: defs)
  have invalid: "\<exists>msg. ?res = (Inl (Error msg), h2) \<and> sublist (inspect h2 errors) msg"
    if "r = Inr config" and "isAValidSharableConfig config h1 = ((False, errors), h2)"
    for config errors h2
  proof -
    let ?msg = "(''Invalid sharable config '' @ dquote @ ?pkg @ dquote
                       @ ''. AJV message:'' @ [CHR 0x0A]) @ inspect h2 errors @ []"
    have "?res = (Inl (Error ?msg), h2)"
      using assms(1) req that by (simp add: defs)
    moreover have "sublist (inspect h2 errors) ?msg"
      by (rule sublist_mid)
    ultimately show ?thesis by blast
  qed
  from pkg same not_found other_str other valid invalid show ?thesis
    by blast
qed

text \<open>
  C5 as stated promises an error with the failure's message for every failure that is
  not "not found". A package that throws \<^verbatim>\<open>null\<close> while it loads is such a failure: the
  handler's read of \<^verbatim>\<open>e.code\<close> throws a \<^verbatim>\<open>TypeError\<close>.
\<close>

theorem resolveUpstream_sharable_config_counterexample:
  "\<not> coreRulesetRegExp_test ''null''
   \<and> example_require (''solium-config-'' @ ''null'') example_heap = (Inl Null, example_heap)
   \<and> resolveUpstream example_inherited example_require example_validator example_inspect
        example_to_string example_heap ''null''
       = (Inl TypeError, example_heap)"
  by (simp add: coreRulesetRegExp_test_def example_require_def resolveUpstream_def
      SOLIUM_SHARABLE_CONFIG_PREFIX_def)

theorem resolveUpstream_sharable_config_witness:
  "\<not> coreRulesetRegExp_test ''missing''
   \<and> example_require (''solium-config-'' @ ''missing'') example_heap = (Inl (Ref 11), example_heap)
   \<and> get_prop example_inherited example_heap (Ref 11) ''code'' = Inr (Str ''MODULE_NOT_FOUND'')
   \<and> (\<exists>msg. resolveUpstream example_inherited example_require example_validator example_inspect
        example_to_string example_heap ''missing'' = (Inl (Error msg), example_heap)
         \<and> sublist (''npm install -g '' @ ''solium-config-'' @ ''missing'') msg
         \<and> sublist (''npm install --save-dev '' @ ''solium-config-'' @ ''missing'') msg)
   \<and> \<not> coreRulesetRegExp_test ''broken''
   \<and> example_require (''solium-config-'' @ ''broken'') example_heap = (Inl (Ref 12), example_heap)
   \<and> get_prop example_inherited example_heap (Ref 12) ''code'' = Inr Undefined
   \<and> get_prop example_inherited example_heap (Ref 12) ''message'' = Inr (Str ''boom'')
   \<and> (\<exists>msg. resolveUpstream example_inherited example_require example_validator example_inspect
        example_to_string example_heap ''broken'' = (Inl (Error msg), example_heap) \<and> sublist ''boom'' msg)
   \<and> \<not> coreRulesetRegExp_test ''good''
   \<and> example_require (''solium-config-'' @ ''good'') example_heap = (Inr (Ref 5), example_heap)
   \<and> example_validator (Ref 5) example_heap = ((True, Null), example_heap)
   \<and> resolveUpstream example_inherited example_require example_validator example_inspect
        example_to_string example_heap ''good'' = (Inr (Ref 4), example_heap)
   \<and> \<not> coreRulesetRegExp_test ''bad''
   \<and> example_require (''solium-config-'' @ ''bad'') example_heap = (Inr (Ref 3), example_heap)
   \<and> example_validator (Ref 3) example_heap = ((False, Str ''should have rules''), example_heap)
   \<and> (\<exists>msg. resolveUpstream example_inherited example_require example_validator example_inspect
        example_to_string example_heap ''bad'' = (Inl (Error msg), example_heap)
         \<and> sublist ''should have rules'' msg)"
proof -
  have n: "\<not> coreRulesetRegExp_test ''missing''" "\<not> coreRulesetRegExp_test ''broken''"
    "\<not> coreRulesetRegExp_test ''good''" "\<not> coreRulesetRegExp_test ''bad''"
    by (simp_all add: coreRulesetRegExp_test_def)
  have r1: "example_require (''solium-config-'' @ ''missing'') example_heap = (Inl (Ref 11), example_heap)"
    and r2: "example_require (''solium-config-'' @ ''broken'') example_heap = (Inl (Ref 12), example_heap)"
    and r3: "example_require (''solium-config-'' @ ''good'') example_heap = (Inr (Ref 5), example_heap)"
    and r4: "example_require (''solium-config-'' @ ''bad'') example_heap = (Inr (Ref 3), example_heap)"
    by (simp_all add: example_require_def)
  have v3: "example_validator (Ref 5) example_heap = ((True, Null), example_heap)"
    and v4: "example_validator (Ref 3) example_heap = ((False, Str ''should have rules''), example_heap)"
    by (simp_all add: example_validator_def)
  have g: "get_prop example_inherited example_heap (Ref 5) ''rules'' = Inr (Ref 4)"
    and e1: "get_prop example_inherited example_heap (Ref 11) ''code'' = Inr (Str ''MODULE_NOT_FOUND'')"
    and e2: "get_prop example_inherited example_heap (Ref 12) ''code'' = Inr Undefined"
    and e3: "get_prop example_inherited example_heap (Ref 12) ''message'' = Inr (Str ''boom'')"
    by (simp_all add: example_heap_def example_inherited_def)
  have i: "example_inspect example_heap (Str ''should have rules'') = ''should have rules''"
    by (simp add: example_inspect_def)
  note inst = resolveUpstream_sharable_config [where require = example_require
      and h = example_heap and inherited = example_inherited
      and isAValidSharableConfig = example_validator and inspect = example_inspect
      and host_to_string = example_to_string]
  from inst [where upstream = "''missing''", OF n(1) r1] e1
  have c1: "\<exists>msg. resolveUpstream example_inherited example_require example_validator example_inspect
        example_to_string example_heap ''missing'' = (Inl (Error msg), example_heap)
         \<and> sublist (''npm install -g '' @ ''solium-config-'' @ ''missing'') msg
         \<and> sublist (''npm install --save-dev '' @ ''solium-config-'' @ ''missing'') msg"
    by (simp del: get_prop.simps add: SOLIUM_SHARABLE_CONFIG_PREFIX_def)
  from inst [where upstream = "''broken''", OF n(2) r2] e2 e3
  have c2: "\<exists>msg. resolveUpstream example_inherited example_require example_validator example_inspect
        example_to_string example_heap ''broken'' = (Inl (Error msg), example_heap) \<and> sublist ''boom'' msg"
    by (simp del: get_prop.simps add: SOLIUM_SHARABLE_CONFIG_PREFIX_def)
  from inst [where upstream = "''good''", OF n(3) r3] v3 g
  have c3: "resolveUpstream example_inherited example_require example_validator example_inspect
        example_to_string example_heap ''good'' = (Inr (Ref 4), example_heap)"
    by (simp del: get_prop.simps add: SOLIUM_SHARABLE_CONFIG_PREFIX_def)
  from inst [where upstream = "''bad''", OF n(4) r4] v4 i
  have c4: "\<exists>msg. resolveUpstream example_inherited example_require example_validator example_inspect
        example_to_string example_heap ''bad'' = (Inl (Error msg), example_heap)
         \<and> sublist ''should have rules'' msg"
    by (simp del: get_prop.simps add: SOLIUM_SHARABLE_CONFIG_PREFIX_def)
  from n r1 r2 r3 r4 v3 v4 e1 e2 e3 c1 c2 c3 c4 show ?thesis
    by (intro conjI)
qed

end
